theory Spec2Isabelle
  imports Main "HOL-Library.Word"
begin

section \<open>Machine integers and failures\<close>

text \<open>
  \<^verbatim>\<open>uint\<close> is a 32-bit unsigned integer: arithmetic on it wraps around.
  \<^verbatim>\<open>int\<close> is a 32-bit signed integer; it is modelled as an \<open>int\<close> and the one
  operation that can leave the range (\<^verbatim>\<open>dim++\<close>) checks the bound explicitly.
\<close>

type_synonym uint = "32 word"

definition INT_MAX :: int where
  "INT_MAX = 2147483647"

text \<open>
  What the C++ leaves undefined or aborts on is a value of \<open>error\<close>:
  a failed \<^verbatim>\<open>assert\<close>, an iterator or index past the end of its container,
  an operation on an empty container, and signed overflow.
\<close>

datatype error = AssertionFailed | OutOfRange | EmptyContainer | SignedOverflow

section \<open>The pseudo-random source\<close>

text \<open>
  Modelled from the spec: \<^verbatim>\<open>utils/rng.h\<close> (the global generator \<^verbatim>\<open>g_rng\<close>) is not among
  the sources. The spec calls it a shared pseudo-random source; \<^verbatim>\<open>g_rng(bound)\<close>
  yields an integer in \<open>[0, bound)\<close> and advances the generator. The generator is
  its sequence of raw outputs together with the number of outputs consumed so far.
\<close>

record rng =
  draws :: "nat \<Rightarrow> nat"
  consumed :: nat

text \<open>
  Modelled from the spec: \<^verbatim>\<open>g_rng(bound)\<close>, for \<open>bound > 0\<close> (the model calls it with
  no other bound).
\<close>

definition g_rng :: "nat \<Rightarrow> rng \<Rightarrow> nat \<times> rng" where
  "g_rng bound r = (draws r (consumed r) mod bound, r\<lparr>consumed := consumed r + 1\<rparr>)"

section \<open>Buckets: \<^verbatim>\<open>std::deque<Entry>\<close> with references into it\<close>

text \<open>
  \<^verbatim>\<open>Bucket<Entry>\<close> is declared in a header that is not among the sources;
  \<^verbatim>\<open>pop_bucket\<close> uses \<^verbatim>\<open>front\<close>, \<^verbatim>\<open>back\<close>, \<^verbatim>\<open>pop_front\<close>, \<^verbatim>\<open>pop_back\<close>, \<^verbatim>\<open>begin()+i\<close> and
  \<^verbatim>\<open>size\<close> on it, the interface of a \<^verbatim>\<open>std::deque\<close>.

  \<^verbatim>\<open>pop_bucket\<close> returns a reference (\<^verbatim>\<open>Entry&\<close>) into the bucket and the caller copies
  the entry out of it after the bucket has been updated. The bucket is therefore
  modelled with its storage: \<open>cells\<close> are the storage cells, the live entries are
  the cells from \<open>start\<close> up to (excluding) \<open>finish\<close>, and a reference is the
  index of a cell. Entries are plain identifiers, so removing one at either end
  only moves the cursor: the cell keeps its contents, which is what a reference
  to a removed cell reads.
\<close>

record 'e Bucket =
  cells :: "'e list"
  start :: nat
  finish :: nat

definition empty_bucket :: "'e Bucket" where
  "empty_bucket = \<lparr>cells = [], start = 0, finish = 0\<rparr>"

definition bucket_size :: "'e Bucket \<Rightarrow> nat" where
  "bucket_size b = finish b - start b"

definition bucket_empty :: "'e Bucket \<Rightarrow> bool" where
  "bucket_empty b = (bucket_size b = 0)"

definition entries :: "'e Bucket \<Rightarrow> 'e list" where
  "entries b = take (bucket_size b) (drop (start b) (cells b))"

definition bucket_ok :: "'e Bucket \<Rightarrow> bool" where
  "bucket_ok b = (start b \<le> finish b \<and> finish b \<le> length (cells b))"

definition push_back :: "'e \<Rightarrow> 'e Bucket \<Rightarrow> 'e Bucket" where
  "push_back e b =
     b\<lparr>cells := (if finish b < length (cells b) then (cells b)[finish b := e]
                  else cells b @ [e]),
       finish := finish b + 1\<rparr>"

definition pop_front :: "'e Bucket \<Rightarrow> 'e Bucket" where
  "pop_front b = b\<lparr>start := start b + 1\<rparr>"

definition pop_back :: "'e Bucket \<Rightarrow> 'e Bucket" where
  "pop_back b = b\<lparr>finish := finish b - 1\<rparr>"

definition deref :: "'e Bucket \<Rightarrow> nat \<Rightarrow> 'e" where
  "deref b ref = cells b ! ref"

section \<open>\<^verbatim>\<open>open_list.h\<close>: queue disciplines and \<^verbatim>\<open>pop_bucket\<close>\<close>

datatype QueueType = FIFO | LIFO | RANDOM

text \<open>
  \<^verbatim>\<open>pop_bucket\<close> yields the reference it returns, the updated bucket and the
  generator. In the \<^verbatim>\<open>RANDOM\<close> case the reference \<open>result\<close> is bound to the
  selected cell before that cell is overwritten with the last entry.
\<close>

definition pop_bucket :: "'e Bucket \<Rightarrow> QueueType \<Rightarrow> rng \<Rightarrow> error + (nat \<times> 'e Bucket \<times> rng)" where
  "pop_bucket bucket queue_type r =
     (if bucket_empty bucket then Inl EmptyContainer
      else case queue_type of
        LIFO \<Rightarrow>
          (let result = finish bucket - 1
           in Inr (result, pop_back bucket, r))
      | RANDOM \<Rightarrow>
          (let (i, r') = g_rng (bucket_size bucket) r;
               it = start bucket + i;
               result = it;
               bucket' = bucket\<lparr>cells := (cells bucket)[it := cells bucket ! (finish bucket - 1)]\<rparr>
           in Inr (result, pop_back bucket', r'))
      | FIFO \<Rightarrow>
          (let result = start bucket
           in Inr (result, pop_front bucket, r)))"

text \<open>
  The call site \<^verbatim>\<open>Entry result = pop_bucket<...>(tbucket, queue_type)\<close>: the entry is
  copied out of the returned reference, in the bucket as \<^verbatim>\<open>pop_bucket\<close> left it.
\<close>

definition pop_entry :: "'e Bucket \<Rightarrow> QueueType \<Rightarrow> rng \<Rightarrow> error + ('e \<times> 'e Bucket \<times> rng)" where
  "pop_entry bucket queue_type r =
     (case pop_bucket bucket queue_type r of
        Inl e \<Rightarrow> Inl e
      | Inr (ref, bucket', r') \<Rightarrow> Inr (deref bucket' ref, bucket', r'))"

text \<open>
  \<^verbatim>\<open>OpenList::insert\<close>, the template method. The evaluation context is external
  and may cache evaluator results when it is queried, so \<open>is_dead_end\<close> and
  \<open>do_insertion\<close> return the context along with their result. \<open>is_dead_end\<close> is
  a \<^verbatim>\<open>const\<close> method: it reads the list and does not change it.
\<close>

definition OpenList_insert ::
  "bool \<Rightarrow> ('ctx \<Rightarrow> bool) \<Rightarrow> ('s \<Rightarrow> 'ctx \<Rightarrow> bool \<times> 'ctx) \<Rightarrow> ('ctx \<Rightarrow> 'e \<Rightarrow> 's \<Rightarrow> 's \<times> 'ctx)
     \<Rightarrow> 'ctx \<Rightarrow> 'e \<Rightarrow> 's \<Rightarrow> 's \<times> 'ctx" where
  "OpenList_insert only_preferred is_preferred is_dead_end do_insertion eval_context entry s =
     (if only_preferred \<and> \<not> is_preferred eval_context then (s, eval_context)
      else case is_dead_end s eval_context of
        (dead, eval_context') \<Rightarrow>
          if \<not> dead then do_insertion eval_context' entry s else (s, eval_context'))"

section \<open>\<^verbatim>\<open>fractal_open_list.cc\<close>: the selection of a type bucket\<close>

text \<open>
  The scan of \<^verbatim>\<open>first_index_with_size_diff\<close>. \<open>depth\<close> is a \<^verbatim>\<open>uint\<close>; in
  \<^verbatim>\<open>depth*dim\<close> the \<^verbatim>\<open>int\<close> is converted to \<^verbatim>\<open>uint\<close> and the product wraps around;
  the returned \<^verbatim>\<open>uint\<close> is converted to \<^verbatim>\<open>int\<close>.
\<close>

fun first_scan :: "uint list \<Rightarrow> uint \<Rightarrow> int \<Rightarrow> int option" where
  "first_scan [] depth dim = None"
| "first_scan (record # rest) depth dim =
     (if record < (depth + 1) * word_of_int dim then Some (sint (depth + 1))
      else first_scan rest (depth + 1) dim)"

definition first_index_with_size_diff :: "uint list \<Rightarrow> int \<Rightarrow> int" where
  "first_index_with_size_diff records dim =
     (case first_scan records 0 dim of
        Some depth \<Rightarrow> depth
      | None \<Rightarrow> if records = [] then 0 else -1)"

text \<open>The vector \<open>indices\<close> that \<^verbatim>\<open>random_index_with_size_diff\<close> collects.\<close>

fun candidate_indices :: "uint list \<Rightarrow> uint \<Rightarrow> int \<Rightarrow> int list" where
  "candidate_indices [] depth dim = []"
| "candidate_indices (record # rest) depth dim =
     (if record < (depth + 1) * word_of_int dim
      then sint (depth + 1) # candidate_indices rest (depth + 1) dim
      else candidate_indices rest (depth + 1) dim)"

definition random_index_with_size_diff :: "uint list \<Rightarrow> int \<Rightarrow> rng \<Rightarrow> int \<times> rng" where
  "random_index_with_size_diff records dim r =
     (let indices = candidate_indices records 0 dim
      in if records = [] then (0, r)
         else if indices = [] then (-1, r)
         else case g_rng (length indices) r of (i, r') \<Rightarrow> (int i, r'))"

text \<open>
  The conditional expression of \<^verbatim>\<open>remove_min\<close> that computes \<open>bucket_i\<close>, and the
  \<^verbatim>\<open>retry\<close> loop around it. \<^verbatim>\<open>dim++\<close> on \<^verbatim>\<open>INT_MAX\<close> is signed overflow.
\<close>

definition select_index :: "bool \<Rightarrow> uint list \<Rightarrow> int \<Rightarrow> rng \<Rightarrow> int \<times> rng" where
  "select_index stoch records dim r =
     (if stoch then random_index_with_size_diff records dim r
      else (first_index_with_size_diff records dim, r))"

function select_retry :: "bool \<Rightarrow> uint list \<Rightarrow> int \<Rightarrow> rng \<Rightarrow> error + (int \<times> int \<times> rng)" where
  "select_retry stoch records dim r =
     (if fst (select_index stoch records dim r) < 0
      then (if INT_MAX \<le> dim then Inl SignedOverflow
            else select_retry stoch records (dim + 1) (snd (select_index stoch records dim r)))
      else Inr (fst (select_index stoch records dim r), dim,
                snd (select_index stoch records dim r)))"
  by pat_completeness auto
termination
  by (relation "measure (\<lambda>(stoch, records, dim, r). nat (INT_MAX - dim))") auto

declare select_retry.simps [simp del]

text \<open>
  Lines 96 to 99: the array is doubled when \<open>bucket_i\<close> is at or beyond its size,
  then the slot \<open>bucket_i\<close> is incremented (a \<^verbatim>\<open>uint\<close>: the increment wraps around).
\<close>

definition bump_record :: "uint list \<Rightarrow> int \<Rightarrow> error + uint list" where
  "bump_record records bucket_i =
     (let records' = (if length records \<le> nat bucket_i
                      then records @ replicate (length records) 0 else records)
      in if length records' \<le> nat bucket_i then Inl OutOfRange
         else Inr (records'[nat bucket_i := records' ! nat bucket_i + 1]))"

section \<open>The open list\<close>

type_synonym Key = "int list"

text \<open>
  Modelled from the spec: the type of a primary bucket's contents is declared in
  the header of the base class \<^verbatim>\<open>TypedTiebreakingOpenList\<close>, which is not among the
  sources. By the spec a primary bucket owns an ordered sequence of (type label,
  type bucket) pairs in first-seen order, the type label being an integer;
  \<^verbatim>\<open>remove_min\<close> addresses it with \<^verbatim>\<open>begin() + bucket_i\<close> and \<^verbatim>\<open>erase\<close>.
\<close>

type_synonym 'e TypeBuckets = "(int \<times> 'e Bucket) list"

text \<open>
  Modelled from the spec: the fields of the list. \<open>only_preferred\<close> and
  \<open>queue_type\<close> are declared in \<^verbatim>\<open>open_list.h\<close>; the others are declared in
  \<^verbatim>\<open>fractal_open_list.h\<close> and in the header of the base class, which are not among
  the sources, and are used by \<^verbatim>\<open>remove_min\<close>. By the spec the primary buckets are
  totally ordered by Key: they are an association list kept sorted, whose first
  element is what \<^verbatim>\<open>buckets.begin()\<close> designates. The usage-count arrays and the
  dimensions are maps from Key.
\<close>

record 'e FractalOpenList =
  only_preferred :: bool
  queue_type :: QueueType
  buckets :: "(Key \<times> 'e TypeBuckets) list"
  size_ol :: int
  stochastic :: bool
  max_depth :: int
  expansion_records :: "Key \<rightharpoonup> uint list"
  current_dimension :: "Key \<rightharpoonup> int"

text \<open>\<^verbatim>\<open>expansion_records[k]\<close> and \<^verbatim>\<open>current_dimension[k]\<close>: a missing entry is created
  as an empty array, respectively as zero.\<close>

definition lookup_records :: "(Key \<rightharpoonup> uint list) \<Rightarrow> Key \<Rightarrow> uint list" where
  "lookup_records m k = (case m k of None \<Rightarrow> [] | Some v \<Rightarrow> v)"

definition lookup_dimension :: "(Key \<rightharpoonup> int) \<Rightarrow> Key \<Rightarrow> int" where
  "lookup_dimension m k = (case m k of None \<Rightarrow> 0 | Some d \<Rightarrow> d)"

text \<open>Lines 83 to 85: an empty array is resized to 32 zero slots.\<close>

definition ensure_records :: "uint list \<Rightarrow> uint list" where
  "ensure_records records = (if records = [] then replicate 32 0 else records)"

definition initial :: "bool \<Rightarrow> QueueType \<Rightarrow> bool \<Rightarrow> int \<Rightarrow> 'e FractalOpenList" where
  "initial pref_only qtype stoch depth =
     \<lparr>only_preferred = pref_only, queue_type = qtype, buckets = [], size_ol = 0,
      stochastic = stoch, max_depth = depth,
      expansion_records = Map.empty, current_dimension = Map.empty\<rparr>"

text \<open>The constructor: \<^verbatim>\<open>assert(max_depth>0)\<close>.\<close>

definition new_FractalOpenList :: "bool \<Rightarrow> QueueType \<Rightarrow> bool \<Rightarrow> int \<Rightarrow> error + 'e FractalOpenList" where
  "new_FractalOpenList pref_only qtype stoch depth =
     (if 0 < depth then Inr (initial pref_only qtype stoch depth) else Inl AssertionFailed)"

text \<open>
  \<^verbatim>\<open>remove_min\<close>. The argument \<open>key\<close> is \<open>None\<close> for a null pointer and \<open>Some v\<close>
  for a pointer to a vector holding \<open>v\<close>; the vector's contents afterwards are
  returned with the entry.
\<close>

definition remove_min ::
  "Key option \<Rightarrow> 'e FractalOpenList \<Rightarrow> rng \<Rightarrow> error + ('e \<times> Key option \<times> 'e FractalOpenList \<times> rng)" where
  "remove_min key s r =
     (if \<not> 0 < size_ol s then Inl AssertionFailed
      else case buckets s of
        [] \<Rightarrow> Inl AssertionFailed
      | (k, tbuckets) # rest \<Rightarrow>
          if tbuckets = [] then Inl AssertionFailed
          else if key \<noteq> None \<and> key \<noteq> Some [] then Inl AssertionFailed
          else
            let key' = (if key = None then None else Some k);
                records = ensure_records (lookup_records (expansion_records s) k);
                dim = lookup_dimension (current_dimension s) k
            in case select_retry (stochastic s) records dim r of
                 Inl e \<Rightarrow> Inl e
               | Inr (bucket_i, dim', r') \<Rightarrow>
                   (case bump_record records bucket_i of
                      Inl e \<Rightarrow> Inl e
                    | Inr records' \<Rightarrow>
                        if length tbuckets \<le> nat bucket_i then Inl OutOfRange
                        else case tbuckets ! nat bucket_i of
                          (label, tbucket) \<Rightarrow>
                            if bucket_empty tbucket then Inl AssertionFailed
                            else case pop_entry tbucket (queue_type s) r' of
                              Inl e \<Rightarrow> Inl e
                            | Inr (result, tbucket', r'') \<Rightarrow>
                                let tbuckets' =
                                      (if bucket_empty tbucket'
                                       then take (nat bucket_i) tbuckets @ drop (Suc (nat bucket_i)) tbuckets
                                       else tbuckets[nat bucket_i := (label, tbucket')]);
                                    buckets' = (if tbuckets' = [] then rest else (k, tbuckets') # rest)
                                in Inr (result, key',
                                        s\<lparr>buckets := buckets', size_ol := size_ol s - 1,
                                          expansion_records := (expansion_records s)(k \<mapsto> records'),
                                          current_dimension := (current_dimension s)(k \<mapsto> dim')\<rparr>,
                                        r'')))"

subsection \<open>Insertion\<close>

text \<open>
  Modelled from the spec: the evaluation context is external. It supplies the
  preferred flag, the dead-end status, the results of the primary evaluators
  (the Key) and the result of the type evaluator (the type label).
\<close>

record EvaluationContext =
  is_preferred :: bool
  dead_end :: bool
  key_values :: Key
  type_value :: int

text \<open>\<^verbatim>\<open>operator<\<close> on \<^verbatim>\<open>std::vector<int>\<close>: the lexicographic order.\<close>

fun key_less :: "Key \<Rightarrow> Key \<Rightarrow> bool" where
  "key_less [] [] = False"
| "key_less [] (y # ys) = True"
| "key_less (x # xs) [] = False"
| "key_less (x # xs) (y # ys) = (x < y \<or> (x = y \<and> key_less xs ys))"

text \<open>
  Modelled from the spec: the part of \<^verbatim>\<open>do_insertion\<close> (base class, not among the
  sources) that locates the type bucket for the label within a primary bucket,
  or creates it at the end of the sequence, and pushes the entry.
\<close>

fun push_typed :: "int \<Rightarrow> 'e \<Rightarrow> 'e TypeBuckets \<Rightarrow> 'e TypeBuckets" where
  "push_typed label e [] = [(label, push_back e empty_bucket)]"
| "push_typed label e ((label', b) # rest) =
     (if label = label' then (label', push_back e b) # rest
      else (label', b) # push_typed label e rest)"

text \<open>
  Modelled from the spec: the part of \<^verbatim>\<open>do_insertion\<close> (base class, not among the
  sources) that locates the primary bucket for the Key, or creates it at its
  place in the order of Keys.
\<close>

fun push_keyed :: "Key \<Rightarrow> int \<Rightarrow> 'e \<Rightarrow> (Key \<times> 'e TypeBuckets) list \<Rightarrow> (Key \<times> 'e TypeBuckets) list" where
  "push_keyed k label e [] = [(k, push_typed label e [])]"
| "push_keyed k label e ((k', tb) # rest) =
     (if k = k' then (k', push_typed label e tb) # rest
      else if key_less k k' then (k, push_typed label e []) # (k', tb) # rest
      else (k', tb) # push_keyed k label e rest)"

text \<open>
  Modelled from the spec: \<^verbatim>\<open>do_insertion\<close> of the base class, which is not among the
  sources. It computes the Key and the type label from the context, files the
  entry into the corresponding bucket and increments the entry count. The usage
  counts and dimensions are members of the derived class and are not touched.
\<close>

definition do_insertion :: "EvaluationContext \<Rightarrow> 'e \<Rightarrow> 'e FractalOpenList \<Rightarrow> 'e FractalOpenList \<times> EvaluationContext" where
  "do_insertion eval_context entry s =
     (s\<lparr>buckets := push_keyed (key_values eval_context) (type_value eval_context) entry (buckets s),
        size_ol := size_ol s + 1\<rparr>,
      eval_context)"

text \<open>
  Modelled from the spec: \<^verbatim>\<open>is_dead_end\<close> of the base class, which is not among the
  sources. It delegates to the evaluators via the context.
\<close>

definition is_dead_end :: "'e FractalOpenList \<Rightarrow> EvaluationContext \<Rightarrow> bool \<times> EvaluationContext" where
  "is_dead_end s eval_context = (dead_end eval_context, eval_context)"

text \<open>\<^verbatim>\<open>OpenList::insert\<close> on this list.\<close>

definition insert_entry :: "EvaluationContext \<Rightarrow> 'e \<Rightarrow> 'e FractalOpenList \<Rightarrow> 'e FractalOpenList \<times> EvaluationContext" where
  "insert_entry eval_context entry s =
     OpenList_insert (only_preferred s) is_preferred is_dead_end do_insertion eval_context entry s"

subsection \<open>Runs\<close>

text \<open>
  A run is a sequence of calls made by the search: insertions and removals (with
  an empty key slot supplied). It stops at the first failure and otherwise yields
  the popped entries with their keys, in order.
\<close>

datatype 'e call = Insert EvaluationContext 'e | RemoveMin

fun run :: "'e call list \<Rightarrow> 'e FractalOpenList \<Rightarrow> rng \<Rightarrow>
    error + (('e \<times> Key option) list \<times> 'e FractalOpenList \<times> rng)" where
  "run [] s r = Inr ([], s, r)"
| "run (Insert eval_context entry # calls) s r = run calls (fst (insert_entry eval_context entry s)) r"
| "run (RemoveMin # calls) s r =
     (case remove_min (Some []) s r of
        Inl e \<Rightarrow> Inl e
      | Inr (x, key, s', r') \<Rightarrow>
          (case run calls s' r' of
             Inl e \<Rightarrow> Inl e
           | Inr (out, s'', r'') \<Rightarrow> Inr ((x, key) # out, s'', r'')))"

subsection \<open>Inputs used in the examples\<close>

text \<open>A generator whose every raw output is \<open>n\<close>, and a context of a preferred,
  live node with the given Key and type label.\<close>

definition rng_const :: "nat \<Rightarrow> rng" where
  "rng_const n = \<lparr>draws = (\<lambda>i. n), consumed = 0\<rparr>"

definition context_of :: "Key \<Rightarrow> int \<Rightarrow> EvaluationContext" where
  "context_of k label = \<lparr>is_preferred = True, dead_end = False, key_values = k, type_value = label\<rparr>"

section \<open>Buckets: basic facts\<close>






lemma length_entries: "bucket_ok b \<Longrightarrow> length (entries b) = bucket_size b"
  by (auto simp: bucket_ok_def entries_def bucket_size_def)


section \<open>The selection and its retry loop: basic facts\<close>

lemma first_scan_dim0: "first_scan records depth 0 = None"
  by (induction records arbitrary: depth) simp_all

lemma candidate_indices_dim0: "candidate_indices records depth 0 = []"
  by (induction records arbitrary: depth) simp_all

lemma select_index_dim0: "records \<noteq> [] \<Longrightarrow> select_index stoch records 0 r = (-1, r)"
  by (simp add: select_index_def first_index_with_size_diff_def random_index_with_size_diff_def
      first_scan_dim0 candidate_indices_dim0)


lemma select_index_negative:
  "fst (select_index stoch records dim r) < 0 \<Longrightarrow> snd (select_index stoch records dim r) = r"
  by (auto simp: select_index_def random_index_with_size_diff_def Let_def split: prod.splits)

lemma select_index_det: "select_index False records dim r = (first_index_with_size_diff records dim, r)"
  by (simp add: select_index_def)

lemma select_retry_result:
  "select_retry stoch records dim r = Inr (b, d, r') \<Longrightarrow>
     dim \<le> d \<and> 0 \<le> b \<and> select_index stoch records d r = (b, r')"
proof (induction stoch records dim r rule: select_retry.induct)
  case (1 stoch records dim r)
  show ?case
  proof (cases "fst (select_index stoch records dim r) < 0")
    case True
    with "1.prems" have nov: "\<not> INT_MAX \<le> dim"
      by (simp add: select_retry.simps [of stoch records dim r] split: if_splits)
    from True have same: "snd (select_index stoch records dim r) = r"
      by (rule select_index_negative)
    from "1.prems" True nov same
    have "select_retry stoch records (dim + 1) r = Inr (b, d, r')"
      by (simp add: select_retry.simps [of stoch records dim r])
    with "1.IH" [OF True nov] same show ?thesis by simp
  next
    case False
    with "1.prems" show ?thesis
      by (auto simp: select_retry.simps [of stoch records dim r])
  qed
qed

lemma select_retry_from_zero:
  assumes "select_retry stoch records dim r = Inr (b, d, r')" and "records \<noteq> []" and "0 \<le> dim"
  shows "1 \<le> d"
proof (rule ccontr)
  assume "\<not> 1 \<le> d"
  with select_retry_result [OF assms(1)] assms(3) have "d = 0" and "0 \<le> b"
    and "select_index stoch records d r = (b, r')"
    by auto
  with select_index_dim0 [OF assms(2), of stoch r] show False by simp
qed

lemma select_retry_det:
  "select_retry False records dim r1 = Inr (b, d, r') \<Longrightarrow>
     r' = r1 \<and> select_retry False records dim r2 = Inr (b, d, r2)"
proof (induction False records dim r1 rule: select_retry.induct)
  case (1 records dim r)
  show ?case
  proof (cases "first_index_with_size_diff records dim < 0")
    case True
    with "1.prems" have nov: "\<not> INT_MAX \<le> dim"
      by (simp add: select_retry.simps [of False records dim r] select_index_det split: if_splits)
    from "1.prems" True nov
    have "select_retry False records (dim + 1) r = Inr (b, d, r')"
      by (simp add: select_retry.simps [of False records dim r] select_index_det)
    with "1.hyps" True nov have "r' = r \<and> select_retry False records (dim + 1) r2 = Inr (b, d, r2)"
      by (simp add: select_index_det)
    with True nov show ?thesis
      by (simp add: select_retry.simps [of False records dim r2] select_index_det)
  next
    case False
    then have "\<And>x. select_retry False records dim x = Inr (first_index_with_size_diff records dim, dim, x)"
      by (simp add: select_retry.simps [of False records dim] select_index_det)
    with "1.prems" show ?thesis
      by auto
  qed
qed

lemma select_retry_det_error:
  "select_retry False records dim r1 = Inl e \<Longrightarrow> select_retry False records dim r2 = Inl e"
proof (induction False records dim r1 rule: select_retry.induct)
  case (1 records dim r)
  show ?case
  proof (cases "first_index_with_size_diff records dim < 0")
    case True
    show ?thesis
    proof (cases "INT_MAX \<le> dim")
      case ov: True
      with "1.prems" True show ?thesis
        by (simp add: select_retry.simps [of False records dim] select_index_det)
    next
      case nov: False
      from "1.prems" True nov
      have "select_retry False records (dim + 1) r = Inl e"
        by (simp add: select_retry.simps [of False records dim r] select_index_det)
      with "1.hyps" True nov have "select_retry False records (dim + 1) r2 = Inl e"
        by (simp add: select_index_det)
      with True nov show ?thesis
        by (simp add: select_retry.simps [of False records dim r2] select_index_det)
    qed
  next
    case False
    then have "\<And>x. select_retry False records dim x = Inr (first_index_with_size_diff records dim, dim, x)"
      by (simp add: select_retry.simps [of False records dim] select_index_det)
    with "1.prems" show ?thesis
      by auto
  qed
qed







section \<open>The selection on a new Key: evaluations\<close>

lemma first_index_fresh_0: "first_index_with_size_diff (replicate 32 0) 0 = - 1"
  by code_simp

lemma first_index_fresh_1: "first_index_with_size_diff (replicate 32 0) 1 = 1"
  by code_simp

lemma candidate_indices_fresh_0: "candidate_indices (replicate 32 0) 0 0 = []"
  by code_simp

lemma candidate_indices_fresh_1: "candidate_indices (replicate 32 0) 0 1 = map int [1..<33]"
  by code_simp

lemma candidate_indices_used_once: "candidate_indices (1 # replicate 31 0) 0 1 = map int [2..<33]"
  by code_simp

lemma select_retry_fresh_det: "select_retry False (replicate 32 0) 0 r = Inr (1, 1, r)"
  by (simp add: select_retry.simps [of _ _ 0] select_retry.simps [of _ _ 1] select_index_def
      first_index_fresh_0 first_index_fresh_1 INT_MAX_def)

lemma select_retry_fresh_stoch:
  "select_retry True (replicate 32 0) 0 (rng_const 5) = Inr (5, 1, (rng_const 5)\<lparr>consumed := 1\<rparr>)"
  by (simp add: select_retry.simps [of _ _ 0] select_retry.simps [of _ _ 1] select_index_def
      random_index_with_size_diff_def candidate_indices_fresh_0 candidate_indices_fresh_1
      INT_MAX_def g_rng_def rng_const_def)

lemma insert_first_entry:
  "fst (insert_entry (context_of [0] 0) (1::nat) (initial False FIFO stoch 1000000)) =
     (initial False FIFO stoch 1000000)
       \<lparr>buckets := [([0], [(0, \<lparr>cells = [1], start = 0, finish = 1\<rparr>)])], size_ol := 1\<rparr>"
  by (simp add: insert_entry_def OpenList_insert_def is_dead_end_def do_insertion_def
      context_of_def initial_def push_back_def empty_bucket_def)

section \<open>\<^verbatim>\<open>remove_min\<close> and runs: basic facts\<close>

lemma remove_min_Inr:
  assumes "remove_min key s r = Inr (e, key', s', r')"
  obtains k tbs rest b d r1 recs' label tb tb' where
    "buckets s = (k, tbs) # rest"
    and "key' = (if key = None then None else Some k)"
    and "select_retry (stochastic s) (ensure_records (lookup_records (expansion_records s) k))
           (lookup_dimension (current_dimension s) k) r = Inr (b, d, r1)"
    and "bump_record (ensure_records (lookup_records (expansion_records s) k)) b = Inr recs'"
    and "nat b < length tbs" and "tbs ! nat b = (label, tb)"
    and "pop_entry tb (queue_type s) r1 = Inr (e, tb', r')"
    and "s' = s\<lparr>buckets :=
                (let tbs' = (if bucket_empty tb' then take (nat b) tbs @ drop (Suc (nat b)) tbs
                             else tbs[nat b := (label, tb')])
                 in if tbs' = [] then rest else (k, tbs') # rest),
              size_ol := size_ol s - 1,
              expansion_records := (expansion_records s)(k \<mapsto> recs'),
              current_dimension := (current_dimension s)(k \<mapsto> d)\<rparr>"
  using assms
  by (auto simp: remove_min_def Let_def split: if_splits list.splits sum.splits prod.splits)

lemma insert_entry_state:
  "expansion_records (fst (insert_entry ctx e s)) = expansion_records s"
  "current_dimension (fst (insert_entry ctx e s)) = current_dimension s"
  "stochastic (fst (insert_entry ctx e s)) = stochastic s"
  "queue_type (fst (insert_entry ctx e s)) = queue_type s"
  by (simp_all add: insert_entry_def OpenList_insert_def is_dead_end_def do_insertion_def)

lemma remove_min_config:
  assumes "remove_min key s r = Inr (e, key', s', r')"
  shows "stochastic s' = stochastic s" and "queue_type s' = queue_type s"
  using assms by (auto elim!: remove_min_Inr)

lemma remove_min_state:
  assumes "remove_min key s r = Inr (e, key', s', r')"
  shows "\<exists>b d recs'.
           current_dimension s' = (current_dimension s)(fst (hd (buckets s)) \<mapsto> d)
           \<and> lookup_dimension (current_dimension s) (fst (hd (buckets s))) \<le> d
           \<and> expansion_records s' = (expansion_records s)(fst (hd (buckets s)) \<mapsto> recs')
           \<and> bump_record (ensure_records (lookup_records (expansion_records s) (fst (hd (buckets s))))) b
               = Inr recs'"
proof -
  from assms obtain k tbs rest b d r1 recs' where
    b: "buckets s = (k, tbs) # rest"
    and sel: "select_retry (stochastic s) (ensure_records (lookup_records (expansion_records s) k))
           (lookup_dimension (current_dimension s) k) r = Inr (b, d, r1)"
    and bump: "bump_record (ensure_records (lookup_records (expansion_records s) k)) b = Inr recs'"
    and ex: "expansion_records s' = (expansion_records s)(k \<mapsto> recs')"
    and cd: "current_dimension s' = (current_dimension s)(k \<mapsto> d)"
    by (auto elim!: remove_min_Inr)
  from select_retry_result [OF sel] have "lookup_dimension (current_dimension s) k \<le> d"
    by simp
  with b bump ex cd show ?thesis by auto
qed

lemma remove_min_dimension_mono:
  assumes "remove_min key s r = Inr (e, key', s', r')"
  shows "lookup_dimension (current_dimension s) k \<le> lookup_dimension (current_dimension s') k"
    and "current_dimension s k \<noteq> None \<Longrightarrow> current_dimension s' k \<noteq> None"
    and "expansion_records s k \<noteq> None \<Longrightarrow> expansion_records s' k \<noteq> None"
  using remove_min_state [OF assms]
  by (auto simp: lookup_dimension_def)

lemma run_dimension_mono:
  assumes "run calls s r = Inr (out, s', r')"
  shows "lookup_dimension (current_dimension s) k \<le> lookup_dimension (current_dimension s') k
         \<and> (current_dimension s k \<noteq> None \<longrightarrow> current_dimension s' k \<noteq> None)
         \<and> (expansion_records s k \<noteq> None \<longrightarrow> expansion_records s' k \<noteq> None)"
  using assms
proof (induction calls s r arbitrary: out rule: run.induct)
  case (1 s r)
  then show ?case by simp
next
  case (2 eval_context entry calls s r)
  from "2.prems" have "run calls (fst (insert_entry eval_context entry s)) r = Inr (out, s', r')"
    by simp
  from "2.IH" [OF this] show ?case
    by (simp add: insert_entry_state)
next
  case (3 calls s r)
  from "3.prems" obtain x key s1 r1 out1 where
    step: "remove_min (Some []) s r = Inr (x, key, s1, r1)"
    and rest: "run calls s1 r1 = Inr (out1, s', r')"
    by (auto split: sum.splits prod.splits)
  from "3.IH" [OF step refl refl refl rest] remove_min_dimension_mono [OF step, of k]
  show ?case by fastforce
qed


lemma ensure_records_nonempty: "ensure_records records \<noteq> []"
  by (simp add: ensure_records_def)

lemma remove_min_dimension_positive:
  assumes pop: "remove_min key s r = Inr (e, key', s', r')"
    and inv: "\<forall>k d. current_dimension s k = Some d \<longrightarrow> 1 \<le> d"
  shows "\<forall>k d. current_dimension s' k = Some d \<longrightarrow> 1 \<le> d"
    and "\<exists>d. current_dimension s' (fst (hd (buckets s))) = Some d \<and> 1 \<le> d"
    and "key \<noteq> None \<longrightarrow> key' = Some (fst (hd (buckets s)))"
proof -
  from pop obtain k tbs rest b d r1 where
    b: "buckets s = (k, tbs) # rest"
    and key': "key' = (if key = None then None else Some k)"
    and sel: "select_retry (stochastic s) (ensure_records (lookup_records (expansion_records s) k))
           (lookup_dimension (current_dimension s) k) r = Inr (b, d, r1)"
    and cd: "current_dimension s' = (current_dimension s)(k \<mapsto> d)"
    by (auto elim!: remove_min_Inr)
  have "0 \<le> lookup_dimension (current_dimension s) k"
  proof (cases "current_dimension s k")
    case None
    then show ?thesis by (simp add: lookup_dimension_def)
  next
    case (Some d0)
    with inv have "1 \<le> d0" by blast
    with Some show ?thesis by (simp add: lookup_dimension_def)
  qed
  with sel have d: "1 \<le> d"
    by (rule select_retry_from_zero [OF _ ensure_records_nonempty])
  with inv cd show "\<forall>k d. current_dimension s' k = Some d \<longrightarrow> 1 \<le> d"
    by auto
  from d cd b show "\<exists>d. current_dimension s' (fst (hd (buckets s))) = Some d \<and> 1 \<le> d"
    by simp
  from key' b show "key \<noteq> None \<longrightarrow> key' = Some (fst (hd (buckets s)))"
    by simp
qed

lemma run_dimension_positive:
  assumes "run calls s r = Inr (out, s', r')"
    and "\<forall>k d. current_dimension s k = Some d \<longrightarrow> 1 \<le> d"
  shows "(\<forall>k d. current_dimension s' k = Some d \<longrightarrow> 1 \<le> d)
      \<and> (\<forall>x key. (x, key) \<in> set out \<longrightarrow>
            (\<exists>k d. key = Some k \<and> current_dimension s' k = Some d \<and> 1 \<le> d))"
  using assms
proof (induction calls s r arbitrary: out rule: run.induct)
  case (1 s r)
  then show ?case by simp
next
  case (2 eval_context entry calls s r)
  from "2.prems" have "run calls (fst (insert_entry eval_context entry s)) r = Inr (out, s', r')"
    by simp
  from "2.IH" [OF this] "2.prems"(2) show ?case
    by (simp add: insert_entry_state)
next
  case (3 calls s r)
  from "3.prems" obtain x key s1 r1 out1 where
    step: "remove_min (Some []) s r = Inr (x, key, s1, r1)"
    and rest: "run calls s1 r1 = Inr (out1, s', r')"
    and out: "out = (x, key) # out1"
    by (auto split: sum.splits prod.splits)
  note pos = remove_min_dimension_positive [OF step "3.prems"(2)]
  from "3.IH" [OF step refl refl refl rest pos(1)]
  have inv': "\<forall>k d. current_dimension s' k = Some d \<longrightarrow> 1 \<le> d"
    and popped: "\<forall>x key. (x, key) \<in> set out1 \<longrightarrow>
            (\<exists>k d. key = Some k \<and> current_dimension s' k = Some d \<and> 1 \<le> d)"
    by simp_all
  from pos(2,3) obtain d where key: "key = Some (fst (hd (buckets s)))"
    and "current_dimension s1 (fst (hd (buckets s))) = Some d"
    by auto
  with run_dimension_mono [OF rest, of "fst (hd (buckets s))"]
  obtain d' where "current_dimension s' (fst (hd (buckets s))) = Some d'"
    by auto
  with inv' key have "\<exists>k d. key = Some k \<and> current_dimension s' k = Some d \<and> 1 \<le> d"
    by auto
  with popped inv' out show ?case by auto
qed

lemma pop_entry_no_draw:
  "pop_entry bk FIFO r =
     (if bucket_empty bk then Inl EmptyContainer else Inr (cells bk ! start bk, pop_front bk, r))"
  "pop_entry bk LIFO r =
     (if bucket_empty bk then Inl EmptyContainer
      else Inr (cells bk ! (finish bk - 1), pop_back bk, r))"
  by (simp_all add: pop_entry_def pop_bucket_def deref_def pop_front_def pop_back_def)

lemma select_retry_det_eq:
  "select_retry False records dim r2 =
     (case select_retry False records dim r1 of
        Inl err \<Rightarrow> Inl err
      | Inr (b, d, r') \<Rightarrow> Inr (b, d, r2))"
proof (cases "select_retry False records dim r1")
  case (Inl err)
  then show ?thesis
    by (simp add: select_retry_det_error [of records dim r1 err r2])
next
  case (Inr res)
  then obtain b d r' where "select_retry False records dim r1 = Inr (b, d, r')"
    by (cases res) auto
  with select_retry_det [of records dim r1 b d r' r2] show ?thesis
    by simp
qed

lemma remove_min_det_eq:
  assumes "\<not> stochastic s" and "queue_type s \<noteq> RANDOM"
  shows "remove_min key s r2 =
     (case remove_min key s r1 of
        Inl err \<Rightarrow> Inl err
      | Inr (e, key', s', r') \<Rightarrow> Inr (e, key', s', r2))"
proof -
  note sel = select_retry_det_eq [where ?r2.0 = r2 and ?r1.0 = r1]
  from assms(2) have "queue_type s = FIFO \<or> queue_type s = LIFO"
    by (cases "queue_type s") auto
  with assms(1) show ?thesis
    by (auto simp: remove_min_def Let_def sel pop_entry_no_draw
        split: sum.splits prod.splits list.splits)
qed

lemma run_det_eq:
  assumes "\<not> stochastic s" and "queue_type s \<noteq> RANDOM"
  shows "run calls s r2 =
     (case run calls s r1 of
        Inl err \<Rightarrow> Inl err
      | Inr (out, s', r') \<Rightarrow> Inr (out, s', r2))"
  using assms
proof (induction calls arbitrary: s r1 r2)
  case Nil
  then show ?case by simp
next
  case (Cons c calls)
  show ?case
  proof (cases c)
    case (Insert eval_context entry)
    with Cons.IH [of "fst (insert_entry eval_context entry s)" r2 r1] Cons.prems
    show ?thesis
      by (simp add: insert_entry_state)
  next
    case RemoveMin
    note step = remove_min_det_eq [OF Cons.prems, of "Some []" r2 r1]
    show ?thesis
    proof (cases "remove_min (Some []) s r1")
      case (Inl err)
      with step RemoveMin show ?thesis by simp
    next
      case (Inr res)
      then obtain x key s1 q1 where pop1: "remove_min (Some []) s r1 = Inr (x, key, s1, q1)"
        by (cases res) auto
      with step have pop2: "remove_min (Some []) s r2 = Inr (x, key, s1, r2)"
        by simp
      from remove_min_config [OF pop1] Cons.prems
      have "\<not> stochastic s1" and "queue_type s1 \<noteq> RANDOM"
        by simp_all
      from Cons.IH [OF this, of r2 q1] pop1 pop2 RemoveMin show ?thesis
        by (simp split: sum.splits prod.splits)
    qed
  qed
qed




text \<open>
  Under the \<^verbatim>\<open>RANDOM\<close> discipline the entry read through the returned reference is
  always the last entry of the bucket, and the bucket keeps its entries except
  that the selected position now holds the last entry and the last position is
  dropped.
\<close>

lemma pop_entry_RANDOM:
  assumes ok: "bucket_ok bk" and ne: "\<not> bucket_empty bk"
  shows "\<exists>bk' r'. pop_entry bk RANDOM r = Inr (last (entries bk), bk', r')
           \<and> bucket_ok bk'
           \<and> entries bk' =
               butlast ((entries bk)[draws r (consumed r) mod bucket_size bk := last (entries bk)])"
proof -
  define n where "n = bucket_size bk"
  define i where "i = draws r (consumed r) mod n"
  define cs where "cs = (cells bk)[start bk + i := cells bk ! (finish bk - 1)]"
  define bk' where "bk' = pop_back (bk\<lparr>cells := cs\<rparr>)"
  from ok ne have n: "0 < n" "start bk + n = finish bk" "finish bk \<le> length (cells bk)"
    by (auto simp: n_def bucket_ok_def bucket_empty_def bucket_size_def)
  then have i: "i < n" by (simp add: i_def)
  have pop: "pop_entry bk RANDOM r = Inr (cs ! (start bk + i), bk', r\<lparr>consumed := consumed r + 1\<rparr>)"
    using ne
    by (simp add: pop_entry_def pop_bucket_def g_rng_def Let_def deref_def bk'_def cs_def i_def n_def
        pop_back_def)
  from n i have last_eq: "last (entries bk) = cells bk ! (finish bk - 1)"
    by (simp add: entries_def n_def [symmetric] last_conv_nth flip: n(2))
  from n i have "cs ! (start bk + i) = cells bk ! (finish bk - 1)"
    by (simp add: cs_def)
  with last_eq have res: "cs ! (start bk + i) = last (entries bk)" by simp
  from n have ok': "bucket_ok bk'"
    by (auto simp: bucket_ok_def bk'_def pop_back_def cs_def)
  from n i have "entries bk' = take (n - 1) (drop (start bk) cs)"
    by (simp add: entries_def bk'_def pop_back_def bucket_size_def flip: n(2))
  also from n i have "\<dots> = butlast (take n (drop (start bk) cs))"
    by (simp add: butlast_take cs_def)
  also from n i have "take n (drop (start bk) cs) = (entries bk)[i := cells bk ! (finish bk - 1)]"
    by (simp add: cs_def entries_def n_def [symmetric] drop_update_swap take_update_swap)
  finally have "entries bk' = butlast ((entries bk)[i := last (entries bk)])"
    by (simp add: last_eq)
  with pop res ok' show ?thesis
    by (auto simp: i_def n_def)
qed

section \<open>The claims\<close>

subsection \<open>C1: selection safety\<close>

text \<open>
  Claim C1 (selection safety) does not hold of the code. One entry is inserted
  into a new list: the minimum-Key primary bucket holds \<open>n = 1\<close> live type bucket.
  In deterministic mode the retry loop widens the dimension to 1 and selects the
  rank 1, which \<^verbatim>\<open>remove_min\<close> uses as the position: \<open>bucket_i = 1\<close>, outside
  \<open>[0, 1)\<close>. In stochastic mode the selector returns a draw below the number of
  candidates (32 here), for instance 5. In both modes the pop addresses a position
  past the end of the type-bucket sequence.
\<close>

theorem selection_out_of_range:
  "buckets (fst (insert_entry (context_of [0] 0) (1::nat) (initial False FIFO False 1000000)))
     = [([0], [(0, \<lparr>cells = [1], start = 0, finish = 1\<rparr>)])]
   \<and> length (snd (hd (buckets (fst (insert_entry (context_of [0] 0) (1::nat)
        (initial False FIFO False 1000000)))))) = 1
   \<and> select_retry False (replicate 32 0) 0 (rng_const 0) = Inr (1, 1, rng_const 0)
   \<and> remove_min None (fst (insert_entry (context_of [0] 0) (1::nat) (initial False FIFO False 1000000)))
        (rng_const 0) = Inl OutOfRange
   \<and> select_retry True (replicate 32 0) 0 (rng_const 5) = Inr (5, 1, (rng_const 5)\<lparr>consumed := 1\<rparr>)
   \<and> remove_min None (fst (insert_entry (context_of [0] 0) (1::nat) (initial False FIFO True 1000000)))
        (rng_const 5) = Inl OutOfRange"
  unfolding insert_first_entry
  by (simp add: remove_min_def initial_def select_retry_fresh_det select_retry_fresh_stoch
      bump_record_def Let_def lookup_records_def lookup_dimension_def ensure_records_def)

subsection \<open>C2: stochastic-mode selection\<close>

text \<open>
  Claim C2 (stochastic-mode selection) does not hold of the code. With the usage
  counts \<open>[1, 0, ..., 0]\<close> (32 slots) and dimension 1 the candidate ranks
  collected in \<open>indices\<close> are 2 to 32. The selector returns
  \<^verbatim>\<open>g_rng(indices.size())\<close>, a draw below the number of candidates, not an
  element of \<open>indices\<close>: when the draw is 0 it returns 0, which is no candidate
  rank, and position 0 is no candidate position either (its count 1 is not below
  \<open>1 * 1\<close>).
\<close>

theorem stochastic_selector_not_candidate:
  "candidate_indices (1 # replicate 31 0) 0 1 = map int [2..<33]
   \<and> random_index_with_size_diff (1 # replicate 31 0) 1 (rng_const 0)
       = (0, (rng_const 0)\<lparr>consumed := 1\<rparr>)
   \<and> fst (random_index_with_size_diff (1 # replicate 31 0) 1 (rng_const 0))
       \<notin> set (candidate_indices (1 # replicate 31 0) 0 1)
   \<and> \<not> (1 # replicate 31 0) ! 0 < ((0::uint) + 1) * word_of_int 1"
  unfolding random_index_with_size_diff_def candidate_indices_used_once
  by (simp add: g_rng_def rng_const_def)

subsection \<open>C3: the RANDOM queue discipline\<close>

text \<open>
  Claim C3 (RANDOM-discipline multiset preservation) does not hold of the code.
  Entries 1 and 2 are inserted into an empty bucket and the generator selects
  position 0. The reference \<open>result\<close> designates cell 0, which is overwritten with
  the last entry before it is read: the pop returns 2 and leaves 2 in the bucket;
  the next pop returns 2 again and empties the bucket. Entry 1 is never returned.
  (Lemma \<open>pop_entry_RANDOM\<close> describes every pop under this discipline.)
\<close>

theorem random_pop_loses_entry:
  "pop_entry (push_back 2 (push_back (1::nat) empty_bucket)) RANDOM (rng_const 0)
     = Inr (2, \<lparr>cells = [2, 2], start = 0, finish = 1\<rparr>, (rng_const 0)\<lparr>consumed := 1\<rparr>)
   \<and> entries \<lparr>cells = [2, 2::nat], start = 0, finish = 1\<rparr> = [2]
   \<and> pop_entry \<lparr>cells = [2, 2::nat], start = 0, finish = 1\<rparr> RANDOM ((rng_const 0)\<lparr>consumed := 1\<rparr>)
     = Inr (2, \<lparr>cells = [2, 2], start = 0, finish = 0\<rparr>, (rng_const 0)\<lparr>consumed := 2\<rparr>)
   \<and> bucket_empty \<lparr>cells = [2, 2::nat], start = 0, finish = 0\<rparr>"
  by (simp add: pop_entry_def pop_bucket_def push_back_def empty_bucket_def bucket_empty_def
      bucket_size_def g_rng_def rng_const_def pop_back_def deref_def entries_def)

subsection \<open>C4: \<^verbatim>\<open>remove_min\<close> on a non-empty list\<close>

text \<open>
  Claim C4 (\<^verbatim>\<open>remove_min\<close> returns one entry of the minimum-Key bucket and stores
  its Key) does not hold of the code on every non-empty list. On the list that
  holds one entry, with an empty key slot supplied, \<^verbatim>\<open>remove_min\<close> in
  deterministic mode selects position 1 of a one-element type-bucket sequence
  and so addresses past its end: no entry is removed or returned.
\<close>

theorem remove_min_single_entry_fails:
  "size_ol (fst (insert_entry (context_of [0] 0) (1::nat) (initial False FIFO False 1000000))) = 1
   \<and> remove_min (Some []) (fst (insert_entry (context_of [0] 0) (1::nat) (initial False FIFO False 1000000)))
        (rng_const 0) = Inl OutOfRange"
  unfolding insert_first_entry
  by (simp add: remove_min_def initial_def select_retry_fresh_det
      bump_record_def Let_def lookup_records_def lookup_dimension_def ensure_records_def)

subsection \<open>C5: the diversification state of a Key\<close>

text \<open>
  Claim C5 (dimension monotonicity and persistence). Across any run (insertions
  and removals in any order) that returns, the stored dimension of every Key
  never decreases, and a Key that has a dimension or a usage-count array keeps
  one. A \<^verbatim>\<open>remove_min\<close> that returns changes the two maps only at the Key \<open>k\<close> of
  the first primary bucket: the dimension becomes some \<open>d\<close> not below the
  stored one, and the array becomes the stored one (32 zero slots if there was
  none) with one slot incremented; this does not depend on whether the primary
  bucket of \<open>k\<close> is deleted by the call. An insertion changes neither map, so
  entries inserted later with the same Key meet the stored state.
\<close>

theorem dimension_monotone_and_persistent:
  "(run calls s r = Inr (out, s', r') \<longrightarrow>
      lookup_dimension (current_dimension s) k \<le> lookup_dimension (current_dimension s') k
      \<and> (current_dimension s k \<noteq> None \<longrightarrow> current_dimension s' k \<noteq> None)
      \<and> (expansion_records s k \<noteq> None \<longrightarrow> expansion_records s' k \<noteq> None))
   \<and> (remove_min key s r = Inr (e, key', s1, r1) \<longrightarrow>
        (\<exists>b d recs'.
           current_dimension s1 = (current_dimension s)(fst (hd (buckets s)) \<mapsto> d)
           \<and> lookup_dimension (current_dimension s) (fst (hd (buckets s))) \<le> d
           \<and> expansion_records s1 = (expansion_records s)(fst (hd (buckets s)) \<mapsto> recs')
           \<and> bump_record (ensure_records (lookup_records (expansion_records s) (fst (hd (buckets s))))) b
               = Inr recs'))
   \<and> current_dimension (fst (insert_entry ctx x s)) = current_dimension s
   \<and> expansion_records (fst (insert_entry ctx x s)) = expansion_records s"
  using run_dimension_mono [of calls s r out s' r' k] remove_min_state [of key s r e key' s1 r1]
  by (simp add: insert_entry_state)

lemma run_refill_example:
  "case run [Insert (context_of [0] 0) (1::nat), RemoveMin] (initial False FIFO True 1000000) (rng_const 0) of
     Inl err \<Rightarrow> False
   | Inr (out, s1, r1) \<Rightarrow>
       out = [(1, Some [0])] \<and> buckets s1 = []
       \<and> current_dimension s1 [0] = Some 1
       \<and> expansion_records s1 [0] = Some (1 # replicate 31 0)
       \<and> (case run [Insert (context_of [0] 0) 2, RemoveMin] s1 r1 of
            Inl err \<Rightarrow> False
          | Inr (out', s2, r2) \<Rightarrow>
              out' = [(2, Some [0])] \<and> buckets s2 = []
              \<and> current_dimension s2 [0] = Some 1
              \<and> expansion_records s2 [0] = Some (2 # replicate 31 0))"
  by code_simp

lemma remove_min_last_entry_example:
  "case remove_min (Some []) (fst (insert_entry (context_of [0] 0) (1::nat) (initial False FIFO True 1000000)))
          (rng_const 0) of
     Inl err \<Rightarrow> False
   | Inr (e, key', s1, r1) \<Rightarrow> e = 1 \<and> key' = Some [0] \<and> buckets s1 = []"
  by code_simp

theorem dimension_monotone_and_persistent_witness:
  "(\<exists>out s1 r1 out' s2 r2.
     run [Insert (context_of [0] 0) (1::nat), RemoveMin] (initial False FIFO True 1000000) (rng_const 0)
       = Inr (out, s1, r1)
     \<and> buckets s1 = [] \<and> current_dimension s1 [0] = Some 1
     \<and> expansion_records s1 [0] = Some (1 # replicate 31 0)
     \<and> run [Insert (context_of [0] 0) 2, RemoveMin] s1 r1 = Inr (out', s2, r2)
     \<and> lookup_dimension (current_dimension s1) [0] \<le> lookup_dimension (current_dimension s2) [0]
     \<and> current_dimension s2 [0] \<noteq> None \<and> expansion_records s2 [0] \<noteq> None
     \<and> expansion_records s2 [0] = Some (2 # replicate 31 0))
   \<and> (\<exists>e key' s1 r1 d recs'.
         remove_min (Some []) (fst (insert_entry (context_of [0] 0) (1::nat) (initial False FIFO True 1000000)))
           (rng_const 0) = Inr (e, key', s1, r1)
         \<and> buckets s1 = []
         \<and> current_dimension s1 = [[0] \<mapsto> d] \<and> 0 \<le> d
         \<and> expansion_records s1 = [[0] \<mapsto> recs'])"
proof -
  let ?run1 = "run [Insert (context_of [0] 0) (1::nat), RemoveMin] (initial False FIFO True 1000000)
    (rng_const 0)"
  from run_refill_example obtain out s1 r1 where run1: "?run1 = Inr (out, s1, r1)"
    by (cases ?run1) (auto simp del: run.simps)
  let ?run2 = "run [Insert (context_of [0] 0) 2, RemoveMin] s1 r1"
  from run_refill_example run1
  have s1: "buckets s1 = []" "current_dimension s1 [0] = Some 1"
      "expansion_records s1 [0] = Some (1 # replicate 31 0)"
    and next_run: "case ?run2 of Inl err \<Rightarrow> False
          | Inr (out', s2, r2) \<Rightarrow>
              out' = [(2, Some [0])] \<and> buckets s2 = []
              \<and> current_dimension s2 [0] = Some 1
              \<and> expansion_records s2 [0] = Some (2 # replicate 31 0)"
    by (simp_all del: run.simps)
  from next_run obtain out' s2 r2 where run2: "?run2 = Inr (out', s2, r2)"
    by (cases ?run2) (auto simp del: run.simps)
  with next_run have s2: "expansion_records s2 [0] = Some (2 # replicate 31 0)"
    by (simp del: run.simps)
  from dimension_monotone_and_persistent
    [of "[Insert (context_of [0] 0) 2, RemoveMin]" s1 r1 out' s2 r2 "[0]"] run2 s1
  have "lookup_dimension (current_dimension s1) [0] \<le> lookup_dimension (current_dimension s2) [0]"
    and "current_dimension s2 [0] \<noteq> None" and "expansion_records s2 [0] \<noteq> None"
    by (simp_all del: run.simps)
  with run1 run2 s1 s2 have first: "\<exists>out s1 r1 out' s2 r2.
     ?run1 = Inr (out, s1, r1)
     \<and> buckets s1 = [] \<and> current_dimension s1 [0] = Some 1
     \<and> expansion_records s1 [0] = Some (1 # replicate 31 0)
     \<and> run [Insert (context_of [0] 0) 2, RemoveMin] s1 r1 = Inr (out', s2, r2)
     \<and> lookup_dimension (current_dimension s1) [0] \<le> lookup_dimension (current_dimension s2) [0]
     \<and> current_dimension s2 [0] \<noteq> None \<and> expansion_records s2 [0] \<noteq> None
     \<and> expansion_records s2 [0] = Some (2 # replicate 31 0)"
    by blast
  let ?s0 = "fst (insert_entry (context_of [0] 0) (1::nat) (initial False FIFO True 1000000))"
  let ?pop = "remove_min (Some []) ?s0 (rng_const 0)"
  from remove_min_last_entry_example obtain e key' t1 q1 where pop: "?pop = Inr (e, key', t1, q1)"
    by (cases ?pop) auto
  with remove_min_last_entry_example have gone: "buckets t1 = []"
    by simp
  have s0: "buckets ?s0 = [([0], [(0, \<lparr>cells = [1], start = 0, finish = 1\<rparr>)])]"
    "current_dimension ?s0 = Map.empty" "expansion_records ?s0 = Map.empty"
    unfolding insert_first_entry by (simp_all add: initial_def)
  from dimension_monotone_and_persistent
    [of "[]" ?s0 "rng_const 0" "[]" ?s0 "rng_const 0" "[0]" "Some []" e key' t1 q1
      "context_of [0] 0" 1] pop s0
  obtain d recs' where "current_dimension t1 = [[0] \<mapsto> d]" and "0 \<le> d"
    and "expansion_records t1 = [[0] \<mapsto> recs']"
    by (auto simp: lookup_dimension_def)
  with pop gone have "\<exists>e key' s1 r1 d recs'.
         ?pop = Inr (e, key', s1, r1) \<and> buckets s1 = []
         \<and> current_dimension s1 = [[0] \<mapsto> d] \<and> 0 \<le> d
         \<and> expansion_records s1 = [[0] \<mapsto> recs']"
    by blast
  with first show ?thesis by blast
qed

subsection \<open>C6: termination of the retry loop\<close>




subsection \<open>C7: insertion through the template method\<close>

text \<open>
  Claim C7 (insert filtering). For every context and entry, \<^verbatim>\<open>insert\<close> leaves the
  list unchanged when the list is preferred-only and the context is not
  preferred, or when the context is a dead end; otherwise the list is the one
  that one call of \<open>do_insertion\<close> returns. The second conjunct counts the calls:
  with an insertion routine that also increments a counter, the counter ends at
  1 when the insertion is delegated and stays 0 otherwise.
\<close>

theorem insert_filtering:
  "fst (OpenList_insert only_pref is_pref dead ins ctx entry s) =
     (if (only_pref \<and> \<not> is_pref ctx) \<or> fst (dead s ctx) then s
      else fst (ins (snd (dead s ctx)) entry s))
   \<and> fst (OpenList_insert only_pref is_pref (\<lambda>(s, n). dead s)
            (\<lambda>c e (s, n). ((fst (ins c e s), Suc n), snd (ins c e s))) ctx entry (s, 0::nat)) =
     (if (only_pref \<and> \<not> is_pref ctx) \<or> fst (dead s ctx) then (s, 0)
      else (fst (ins (snd (dead s ctx)) entry s), 1))"
  by (simp add: OpenList_insert_def split: prod.splits)

theorem insert_filtering_witness:
  "fst (insert_entry ((context_of [0] 0)\<lparr>is_preferred := False\<rparr>) (1::nat)
          (initial True FIFO False 1000000)) = initial True FIFO False 1000000
   \<and> fst (insert_entry ((context_of [0] 0)\<lparr>dead_end := True\<rparr>) (1::nat)
          (initial False FIFO False 1000000)) = initial False FIFO False 1000000
   \<and> fst (insert_entry (context_of [0] 0) (1::nat) (initial False FIFO False 1000000))
       = fst (do_insertion (context_of [0] 0) 1 (initial False FIFO False 1000000))
   \<and> fst (insert_entry ((context_of [0] 0)\<lparr>is_preferred := False\<rparr>) (1::nat)
          (initial False FIFO False 1000000))
       = fst (do_insertion ((context_of [0] 0)\<lparr>is_preferred := False\<rparr>) 1
               (initial False FIFO False 1000000))"
  using
    insert_filtering [of True is_preferred is_dead_end do_insertion
      "(context_of [0] 0)\<lparr>is_preferred := False\<rparr>" "1::nat" "initial True FIFO False 1000000"]
    insert_filtering [of False is_preferred is_dead_end do_insertion
      "(context_of [0] 0)\<lparr>dead_end := True\<rparr>" "1::nat" "initial False FIFO False 1000000"]
    insert_filtering [of False is_preferred is_dead_end do_insertion
      "context_of [0] 0" "1::nat" "initial False FIFO False 1000000"]
    insert_filtering [of False is_preferred is_dead_end do_insertion
      "(context_of [0] 0)\<lparr>is_preferred := False\<rparr>" "1::nat" "initial False FIFO False 1000000"]
  by (simp add: insert_entry_def is_dead_end_def context_of_def initial_def)

subsection \<open>C8: the FIFO queue discipline\<close>




subsection \<open>C9: reproducibility in deterministic mode\<close>

text \<open>
  Claim C9 as stated (with \<open>stochastic = false\<close> two runs of the same calls pop
  the same sequence) fails when the queue discipline is \<^verbatim>\<open>RANDOM\<close>: \<^verbatim>\<open>pop_bucket\<close>
  then draws from the generator. With the label-1 bucket holding 2, 3, 4, a
  generator that always draws 0 pops 4 then 3, one that always draws 1 pops 4
  then 4.
\<close>

theorem deterministic_reproducibility_counterexample:
  "(case run [Insert (context_of [0] 0) (1::nat), Insert (context_of [0] 1) 2, Insert (context_of [0] 1) 3,
              Insert (context_of [0] 1) 4, RemoveMin, RemoveMin]
          (initial False RANDOM False 1000000) (rng_const 0) of
      Inl err \<Rightarrow> [] | Inr (out, s, r) \<Rightarrow> map fst out) = [4, 3]
   \<and> (case run [Insert (context_of [0] 0) (1::nat), Insert (context_of [0] 1) 2, Insert (context_of [0] 1) 3,
              Insert (context_of [0] 1) 4, RemoveMin, RemoveMin]
          (initial False RANDOM False 1000000) (rng_const 1) of
      Inl err \<Rightarrow> [] | Inr (out, s, r) \<Rightarrow> map fst out) = [4, 4]"
  by code_simp

text \<open>
  Claim C9, amended. With \<open>stochastic = false\<close> and the queue discipline FIFO or
  LIFO, a run of any calls from any state yields the same failure, or the same
  popped entries and the same final list, whatever the generator; and the
  generator is returned as it was passed. Under every queue discipline the
  type-bucket selection of \<^verbatim>\<open>remove_min\<close> (the retry loop) does not depend on the
  generator and returns it as it was passed.
\<close>

theorem deterministic_reproducibility:
  assumes "\<not> stochastic s" and "queue_type s \<noteq> RANDOM"
  shows "run calls s r2 =
           (case run calls s r1 of
              Inl err \<Rightarrow> Inl err
            | Inr (out, s', r') \<Rightarrow> Inr (out, s', r2))
       \<and> select_retry (stochastic s) records dim r2 =
           (case select_retry (stochastic s) records dim r1 of
              Inl err \<Rightarrow> Inl err
            | Inr (b, d, r') \<Rightarrow> Inr (b, d, r2))"
  using run_det_eq [OF assms, of calls r2 r1] select_retry_det_eq [of records dim r2 r1] assms(1)
  by simp

lemma run_fifo_example:
  "case run [Insert (context_of [0] 0) (1::nat), Insert (context_of [0] 1) 2, Insert (context_of [0] 1) 3,
             Insert (context_of [0] 1) 4, RemoveMin, RemoveMin]
          (initial False FIFO False 1000000) (rng_const 0) of
     Inl err \<Rightarrow> False
   | Inr (out, s, r) \<Rightarrow> map fst out = [2, 3] \<and> consumed r = 0"
  by code_simp

theorem deterministic_reproducibility_witness:
  "\<not> stochastic (initial False FIFO False 1000000 :: nat FractalOpenList)
   \<and> queue_type (initial False FIFO False 1000000 :: nat FractalOpenList) \<noteq> RANDOM
   \<and> (\<exists>out s' r'.
        run [Insert (context_of [0] 0) (1::nat), Insert (context_of [0] 1) 2, Insert (context_of [0] 1) 3,
             Insert (context_of [0] 1) 4, RemoveMin, RemoveMin]
          (initial False FIFO False 1000000) (rng_const 0) = Inr (out, s', r')
        \<and> run [Insert (context_of [0] 0) (1::nat), Insert (context_of [0] 1) 2, Insert (context_of [0] 1) 3,
             Insert (context_of [0] 1) 4, RemoveMin, RemoveMin]
          (initial False FIFO False 1000000) (rng_const 1) = Inr (out, s', rng_const 1)
        \<and> map fst out = [2, 3])"
proof -
  let ?calls = "[Insert (context_of [0] 0) (1::nat), Insert (context_of [0] 1) 2,
    Insert (context_of [0] 1) 3, Insert (context_of [0] 1) 4, RemoveMin, RemoveMin]"
  let ?s = "initial False FIFO False 1000000 :: nat FractalOpenList"
  have det: "\<not> stochastic ?s" and fifo: "queue_type ?s \<noteq> RANDOM"
    by (simp_all add: initial_def)
  from run_fifo_example obtain out s' r' where run0: "run ?calls ?s (rng_const 0) = Inr (out, s', r')"
    by (cases "run ?calls ?s (rng_const 0)") (auto simp del: run.simps)
  with run_fifo_example have out: "map fst out = [2, 3]"
    by (simp del: run.simps)
  from deterministic_reproducibility [OF det fifo, of ?calls "rng_const 1" "rng_const 0"] run0
  have "run ?calls ?s (rng_const 1) = Inr (out, s', rng_const 1)"
    by (simp del: run.simps)
  with det fifo run0 out show ?thesis
    by (auto simp del: run.simps)
qed

subsection \<open>C10: the dimension after a pop\<close>

text \<open>
  Claim C10 (the dimension is at least 1 after a pop). In a new list every Key
  has the dimension 0 (no entry is stored, and a missing entry reads as 0). With
  dimension 0 the selection on a non-empty array is \<open>-1\<close> (no position is a
  candidate) in both modes, so a retry loop started at 0 increments the
  dimension before it selects. Hence in every state \<open>s\<close> that a run from a new
  list reaches: every stored dimension is at least 1; every popped Key has a
  stored dimension of at least 1; and after a further \<^verbatim>\<open>remove_min\<close> that returns,
  the Key it popped from (the first primary bucket's) has a stored dimension of
  at least 1.
\<close>

theorem dimension_at_least_one:
  assumes "run calls (initial pref qtype stoch depth :: 'e FractalOpenList) r0 = Inr (out, s, r)"
  shows "lookup_dimension (current_dimension (initial pref qtype stoch depth :: 'e FractalOpenList)) k = 0
    \<and> (\<forall>records q. records \<noteq> [] \<longrightarrow> select_index (stochastic s) records 0 q = (- 1, q))
    \<and> (\<forall>k d. current_dimension s k = Some d \<longrightarrow> 1 \<le> d)
    \<and> (\<forall>x key. (x, key) \<in> set out \<longrightarrow>
          (\<exists>k d. key = Some k \<and> current_dimension s k = Some d \<and> 1 \<le> d))
    \<and> (\<forall>key e key' s' r'. remove_min key s r = Inr (e, key', s', r') \<longrightarrow>
          (\<exists>d. current_dimension s' (fst (hd (buckets s))) = Some d \<and> 1 \<le> d))"
proof -
  have init: "\<forall>k d. current_dimension (initial pref qtype stoch depth :: 'e FractalOpenList) k = Some d
      \<longrightarrow> 1 \<le> d"
    by (simp add: initial_def)
  note run = run_dimension_positive [OF assms init]
  then have inv: "\<forall>k d. current_dimension s k = Some d \<longrightarrow> 1 \<le> d"
    by simp
  have "\<exists>d. current_dimension s' (fst (hd (buckets s))) = Some d \<and> 1 \<le> d"
    if "remove_min key s r = Inr (e, key', s', r')" for key e key' s' r'
    using remove_min_dimension_positive(2) [OF that inv] .
  with run show ?thesis
    by (simp add: select_index_dim0 initial_def lookup_dimension_def)
qed


lemma run_two_types_example:
  "case run [Insert (context_of [0] 0) (1::nat), Insert (context_of [0] 1) 2, Insert (context_of [0] 1) 3,
             RemoveMin] (initial False FIFO False 1000000) (rng_const 0) of
     Inl err \<Rightarrow> False
   | Inr (out, s, r) \<Rightarrow>
       out = [(2, Some [0])] \<and> current_dimension s [0] = Some 1
       \<and> (case remove_min None s r of
             Inl err \<Rightarrow> False
           | Inr (e, key', s', r') \<Rightarrow> e = 3 \<and> current_dimension s' [0] = Some 1)"
  by code_simp

theorem dimension_at_least_one_witness:
  "\<exists>out s r e key' s' r' d.
     run [Insert (context_of [0] 0) (1::nat), Insert (context_of [0] 1) 2, Insert (context_of [0] 1) 3,
          RemoveMin] (initial False FIFO False 1000000) (rng_const 0) = Inr (out, s, r)
     \<and> out = [(2, Some [0])] \<and> current_dimension s [0] = Some 1
     \<and> remove_min None s r = Inr (e, key', s', r')
     \<and> current_dimension s' (fst (hd (buckets s))) = Some d \<and> 1 \<le> d"
proof -
  let ?run = "run [Insert (context_of [0] 0) (1::nat), Insert (context_of [0] 1) 2,
    Insert (context_of [0] 1) 3, RemoveMin] (initial False FIFO False 1000000) (rng_const 0)"
  from run_two_types_example obtain out s r where run: "?run = Inr (out, s, r)"
    by (cases ?run) (auto simp del: run.simps)
  with run_two_types_example
  have out: "out = [(2, Some [0])]" and dim: "current_dimension s [0] = Some 1"
    and next_pop: "case remove_min None s r of
             Inl err \<Rightarrow> False
           | Inr (e, key', s', r') \<Rightarrow> e = 3 \<and> current_dimension s' [0] = Some 1"
    by (simp_all del: run.simps)
  from next_pop obtain e key' s' r' where pop: "remove_min None s r = Inr (e, key', s', r')"
    by (cases "remove_min None s r") auto
  from dimension_at_least_one [OF run, of "[0]"] pop
  obtain d where "current_dimension s' (fst (hd (buckets s))) = Some d" and "1 \<le> d"
    by blast
  with run out dim pop show ?thesis by blast
qed

end
